theory Spec2Isabelle
  imports Complex_Main "HOL-Library.Sublist"
begin

section \<open>Values read from the telemetry store\<close>

text \<open>
  \<^verbatim>\<open>get_latest_data\<close> hands \<^verbatim>\<open>ref.get()\<close> to the dashboard unchanged, so a
  reading is whatever JSON the store holds: null, a number, a string, an array or an
  object. Python's numbers are kept apart from the other values because only they pass
  the comparisons with the integer thresholds.

  A float is written as the decimal that Python prints for it: \<open>NFloat m k\<close> is the
  float whose shortest round-trip decimal is \<open>m / 10 ^ k\<close>, and \<open>NNegZero\<close> is the float
  \<^verbatim>\<open>-0.0\<close>. Every finite float has such a decimal, of at most 17 significant digits; a
  decimal that no float prints as (more digits, or a magnitude outside the range of a
  double) stands for no value of the program. Arithmetic and comparisons are exact (NaN,
  the infinities and the rounding of a float subtraction are outside the model). A bool
  is a number in Python (\<^verbatim>\<open>True > 30\<close> is \<^verbatim>\<open>False\<close>), so it is one here.
\<close>

datatype pynum = NBool bool | NInt int | NFloat int nat | NNegZero

datatype pyval =
    PNone
  | PNum pynum
  | PStr string
  | PList "pyval list"
  | PDict "(string \<times> pyval) list"

datatype pyerr = TypeError | AttributeError | KeyError | FetchError

fun val :: "pynum \<Rightarrow> real" where
  "val (NBool b) = (if b then 1 else 0)"
| "val (NInt i) = real_of_int i"
| "val (NFloat m k) = real_of_int m / 10 ^ k"
| "val NNegZero = 0"

text \<open>\<^verbatim>\<open>not data\<close>: None, zero and the empty string, list and dict are falsy.\<close>

fun py_truthy :: "pyval \<Rightarrow> bool" where
  "py_truthy PNone = False"
| "py_truthy (PNum n) = (val n \<noteq> 0)"
| "py_truthy (PStr s) = (s \<noteq> [])"
| "py_truthy (PList xs) = (xs \<noteq> [])"
| "py_truthy (PDict kvs) = (kvs \<noteq> [])"

text \<open>\<^verbatim>\<open>sub in s\<close> on strings: \<open>sub\<close> occurs in \<open>s\<close> as a contiguous block.\<close>

fun str_contains :: "string \<Rightarrow> string \<Rightarrow> bool" where
  "str_contains sub [] = (sub = [])"
| "str_contains sub (c # cs) = (prefix sub (c # cs) \<or> str_contains sub cs)"

text \<open>
  \<^verbatim>\<open>key in data\<close> for a string literal \<open>key\<close>: key membership on a dict, element
  membership on a list, substring on a string, TypeError on None and on a number.
\<close>

fun py_in :: "string \<Rightarrow> pyval \<Rightarrow> pyerr + bool" where
  "py_in key (PDict kvs) = Inr (key \<in> set (map fst kvs))"
| "py_in key (PList xs) = Inr (PStr key \<in> set xs)"
| "py_in key (PStr s) = Inr (str_contains key s)"
| "py_in key PNone = Inl TypeError"
| "py_in key (PNum n) = Inl TypeError"

text \<open>\<^verbatim>\<open>data.get(key, default)\<close>: only a dict has the method.\<close>

fun py_get :: "pyval \<Rightarrow> string \<Rightarrow> pyval \<Rightarrow> pyerr + pyval" where
  "py_get (PDict kvs) key dflt = Inr (case map_of kvs key of None \<Rightarrow> dflt | Some v \<Rightarrow> v)"
| "py_get PNone key dflt = Inl AttributeError"
| "py_get (PNum n) key dflt = Inl AttributeError"
| "py_get (PStr s) key dflt = Inl AttributeError"
| "py_get (PList xs) key dflt = Inl AttributeError"

definition bind_err :: "pyerr + 'a \<Rightarrow> ('a \<Rightarrow> pyerr + 'b) \<Rightarrow> pyerr + 'b" where
  "bind_err m f = (case m of Inl e \<Rightarrow> Inl e | Inr x \<Rightarrow> f x)"

section \<open>The staleness check: \<^verbatim>\<open>is_sensor_online\<close>\<close>

text \<open>
  The body of the \<^verbatim>\<open>try\<close> block. \<open>now\<close> is the value of \<^verbatim>\<open>int(time.time())\<close>
  at the call. \<^verbatim>\<open>data_timestamp > 1000000000\<close> raises TypeError unless the
  timestamp is a number, and so does \<^verbatim>\<open>age_seconds <= timeout_seconds\<close> unless the
  timeout is one.
\<close>

definition online_try :: "int \<Rightarrow> pyval \<Rightarrow> pyval \<Rightarrow> pyerr + bool" where
  "online_try now data timeout_seconds =
     bind_err (py_in ''timestamp'' data) (\<lambda>has_ts.
       if has_ts then
         bind_err (py_get data ''timestamp'' (PNum (NInt 0))) (\<lambda>data_timestamp.
           case data_timestamp of
             PNum ts \<Rightarrow>
               if val ts > 1000000000 then
                 (case timeout_seconds of
                    PNum t \<Rightarrow> Inr (real_of_int now - val ts \<le> val t)
                  | _ \<Rightarrow> Inl TypeError)
               else Inr True
           | _ \<Rightarrow> Inl TypeError)
       else
         bind_err (py_in ''temperature'' data) (\<lambda>has_temp.
           if has_temp then Inr True else py_in ''humidity'' data))"

text \<open>
  The whole function: the falsy test is outside the \<^verbatim>\<open>try\<close>, and the bare
  \<^verbatim>\<open>except\<close> turns every exception of the body into \<^verbatim>\<open>True\<close>.
\<close>

definition is_sensor_online :: "int \<Rightarrow> pyval \<Rightarrow> pyval \<Rightarrow> pyerr + bool" where
  "is_sensor_online now data timeout_seconds =
     (if \<not> py_truthy data then Inr False
      else case online_try now data timeout_seconds of
             Inl e \<Rightarrow> Inr True
           | Inr b \<Rightarrow> Inr b)"

text \<open>The default of the parameter: \<^verbatim>\<open>timeout_seconds=30\<close>.\<close>

definition default_timeout :: pyval where
  "default_timeout = PNum (NInt 30)"

section \<open>Formatting a number in an f-string\<close>

text \<open>
  \<^verbatim>\<open>f"{temp}"\<close> is \<^verbatim>\<open>str(temp)\<close>: no format specification, so nothing is rounded.
  An int prints its decimal digits and a bool \<^verbatim>\<open>True\<close> or \<^verbatim>\<open>False\<close>.

  A float prints its shortest round-trip digits. With the value written as
  \<open>0.d\<^sub>1d\<^sub>2\<dots>d\<^sub>n \<times> 10 ^ decpt\<close>, Python uses exponent notation when \<open>decpt \<le> -4\<close> or
  \<open>decpt > 16\<close> (so below \<open>0.0001\<close> and from \<open>10 ^ 16\<close> up): the first digit, a point and the
  other digits when there are any, then \<^verbatim>\<open>e\<close>, the sign of the exponent \<open>decpt - 1\<close> and
  at least two digits of it. Otherwise it uses positional notation, with \<^verbatim>\<open>.0\<close> added
  to a whole number. Zero prints as \<^verbatim>\<open>0.0\<close> and negative zero as \<^verbatim>\<open>-0.0\<close>.
\<close>

fun digits :: "nat \<Rightarrow> string" where
  "digits n = (if n < 10 then [''0123456789'' ! n]
               else digits (n div 10) @ [''0123456789'' ! (n mod 10)])"

declare digits.simps [simp del]

definition str_int :: "int \<Rightarrow> string" where
  "str_int i = (if i < 0 then ''-'' @ digits (nat (- i)) else digits (nat i))"

definition strip_zeros :: "string \<Rightarrow> string" where
  "strip_zeros s = rev (dropWhile (\<lambda>c. c = CHR ''0'') (rev s))"

definition str_exponent :: "int \<Rightarrow> string" where
  "str_exponent e =
     (if e < 0 then ''-'' else ''+'') @ (if \<bar>e\<bar> < 10 then ''0'' else []) @ digits (nat \<bar>e\<bar>)"

definition str_float :: "int \<Rightarrow> nat \<Rightarrow> string" where
  "str_float m k =
     (if m = 0 then ''0.0''
      else
        let ds = digits (nat \<bar>m\<bar>);
            sig = strip_zeros ds;
            decpt = int (length ds) - int k
        in (if m < 0 then ''-'' else []) @
           (if decpt \<le> - 4 \<or> 16 < decpt then
              take 1 sig @ (if drop 1 sig = [] then [] else ''.'' @ drop 1 sig) @
              ''e'' @ str_exponent (decpt - 1)
            else if decpt \<le> 0 then
              ''0.'' @ replicate (nat (- decpt)) CHR ''0'' @ sig
            else if nat decpt < length sig then
              take (nat decpt) sig @ ''.'' @ drop (nat decpt) sig
            else
              sig @ replicate (nat decpt - length sig) CHR ''0'' @ ''.0''))"

fun str_num :: "pynum \<Rightarrow> string" where
  "str_num (NBool b) = (if b then ''True'' else ''False'')"
| "str_num (NInt i) = str_int i"
| "str_num (NFloat m k) = str_float m k"
| "str_num NNegZero = ''-0.0''"

section \<open>The threshold checks of \<^verbatim>\<open>analyze_data\<close>\<close>

text \<open>
  The unit after the temperature, as the bytes of the source file (UTF-8), then \<open>C\<close>.
\<close>

definition deg_C :: string where
  "deg_C = [CHR 0xC2, CHR 0xAC, CHR 0xE2, CHR 0x88, CHR 0x9E] @ ''C''"

text \<open>
  Each \<^verbatim>\<open>if\<close>/\<^verbatim>\<open>elif\<close> block appends to one of the two lists
  \<^verbatim>\<open>(critical_issues, warnings)\<close> or leaves both alone. Its first comparison raises
  TypeError unless the value is a number.
\<close>

type_synonym issues = "string list \<times> string list"

definition temp_check :: "pyval \<Rightarrow> issues \<Rightarrow> pyerr + issues" where
  "temp_check temp st =
     (case temp of
        PNum t \<Rightarrow>
          if val t > 30 \<or> val t < 10 then
            Inr (fst st @ [''Critical Temperature: '' @ str_num t @ deg_C], snd st)
          else if val t > 26 \<or> val t < 18 then
            Inr (fst st, snd st @ [''Temperature Warning: '' @ str_num t @ deg_C])
          else Inr st
      | _ \<Rightarrow> Inl TypeError)"

definition humidity_check :: "pyval \<Rightarrow> issues \<Rightarrow> pyerr + issues" where
  "humidity_check humidity st =
     (case humidity of
        PNum h \<Rightarrow>
          if val h > 70 \<or> val h < 20 then
            Inr (fst st @ [''Critical Humidity: '' @ str_num h @ ''%''], snd st)
          else if val h > 60 \<or> val h < 30 then
            Inr (fst st, snd st @ [''Humidity Warning: '' @ str_num h @ ''%''])
          else Inr st
      | _ \<Rightarrow> Inl TypeError)"

definition gas_check :: "pyval \<Rightarrow> issues \<Rightarrow> pyerr + issues" where
  "gas_check gas_ppm st =
     (case gas_ppm of
        PNum g \<Rightarrow>
          if val g > 800 then
            Inr (fst st @ [''Dangerous Gas Level: '' @ str_num g @ '' ppm''], snd st)
          else if val g > 500 then
            Inr (fst st, snd st @ [''Elevated Gas Level: '' @ str_num g @ '' ppm''])
          else Inr st
      | _ \<Rightarrow> Inl TypeError)"

text \<open>\<^verbatim>\<open>sep.join(xs)\<close>.\<close>

fun join :: "string \<Rightarrow> string list \<Rightarrow> string" where
  "join sep [] = []"
| "join sep [x] = x"
| "join sep (x # y # ys) = x @ sep @ join sep (y # ys)"

text \<open>
  The four \<^verbatim>\<open>data.get\<close> calls, in the order (temp, humidity, gas_ppm, motion).
  \<^verbatim>\<open>motion\<close> is read and never used.
\<close>

definition read_fields :: "pyval \<Rightarrow> pyerr + (pyval \<times> pyval \<times> pyval \<times> pyval)" where
  "read_fields data =
     bind_err (py_get data ''temperature'' (PNum (NInt 0))) (\<lambda>temp.
     bind_err (py_get data ''humidity'' (PNum (NInt 0))) (\<lambda>humidity.
     bind_err (py_get data ''gas_ppm'' (PNum (NInt 0))) (\<lambda>gas_ppm.
     bind_err (py_get data ''motion_detected'' (PNum (NBool False))) (\<lambda>motion.
       Inr (temp, humidity, gas_ppm, motion)))))"

text \<open>The three blocks, run on empty lists, in the source's order.\<close>

definition collect_issues :: "pyval \<Rightarrow> pyval \<Rightarrow> pyval \<Rightarrow> pyerr + issues" where
  "collect_issues temp humidity gas_ppm =
     bind_err (temp_check temp ([], [])) (\<lambda>st1.
     bind_err (humidity_check humidity st1) (\<lambda>st2.
       gas_check gas_ppm st2))"

text \<open>The result is the triple (status, message, colour).\<close>

type_synonym status = "string \<times> string \<times> string"

definition overall_status :: "issues \<Rightarrow> status" where
  "overall_status st =
     (if fst st \<noteq> [] then (''CRITICAL'', join '' | '' (fst st), ''red'')
      else if snd st \<noteq> [] then (''WARNING'', join '' | '' (snd st), ''orange'')
      else (''SAFE'', ''All parameters within safe range'', ''green''))"

text \<open>The part of \<^verbatim>\<open>analyze_data\<close> after the two early returns.\<close>

definition classify :: "pyval \<Rightarrow> pyerr + status" where
  "classify data =
     bind_err (read_fields data) (\<lambda>(temp, humidity, gas_ppm, motion).
     bind_err (collect_issues temp humidity gas_ppm) (\<lambda>st.
       Inr (overall_status st)))"

text \<open>
  \<^verbatim>\<open>analyze_data(data)\<close> has no timeout parameter: it calls
  \<^verbatim>\<open>is_sensor_online(data)\<close>, which takes the default of 30 seconds.
\<close>

definition analyze_data :: "int \<Rightarrow> pyval \<Rightarrow> pyerr + status" where
  "analyze_data now data =
     (if \<not> py_truthy data then Inr (''UNKNOWN'', ''No data available'', ''gray'')
      else
        bind_err (is_sensor_online now data default_timeout) (\<lambda>online.
          if \<not> online then
            Inr (''OFFLINE'', ''Sensor not responding - simulator may be stopped'', ''gray'')
          else classify data))"

section \<open>The summary of all labs in \<^verbatim>\<open>main\<close>\<close>

text \<open>
  \<open>fetch\<close> stands for \<^verbatim>\<open>db.reference(path).get()\<close>, the call to the store, which
  returns a value or raises. \<^verbatim>\<open>get_latest_data\<close> catches every \<^verbatim>\<open>Exception\<close> and
  returns \<^verbatim>\<open>None\<close>.
\<close>

definition get_latest_data :: "(string \<Rightarrow> pyerr + pyval) \<Rightarrow> string \<Rightarrow> pyval" where
  "get_latest_data fetch device_id =
     (case fetch device_id of Inl e \<Rightarrow> PNone | Inr data \<Rightarrow> data)"

text \<open>The dict literal indexed by \<^verbatim>\<open>lab_id\<close>: KeyError on any other id.\<close>

definition lab_name :: "string \<Rightarrow> pyerr + string" where
  "lab_name lab_id =
     (if lab_id = ''sensor_node_01'' then Inr ''Lab A''
      else if lab_id = ''sensor_node_02'' then Inr ''Room B''
      else if lab_id = ''sensor_node_03'' then Inr ''Lab C''
      else Inl KeyError)"

text \<open>The four markers, as the bytes of the source file.\<close>

definition mark_safe :: string where
  "mark_safe = [CHR 0xEF, CHR 0xA3, CHR 0xBF, CHR 0xC3, CHR 0xBC, CHR 0xC3, CHR 0xBC,
                CHR 0xC2, CHR 0xA2]"

definition mark_warning :: string where
  "mark_warning = [CHR 0xEF, CHR 0xA3, CHR 0xBF, CHR 0xC3, CHR 0xBC, CHR 0xC3, CHR 0xBC,
                   CHR 0xC2, CHR 0xB0]"

definition mark_critical :: string where
  "mark_critical = [CHR 0xEF, CHR 0xA3, CHR 0xBF, CHR 0xC3, CHR 0xBC, CHR 0xC3, CHR 0xAE,
                    CHR 0xC2, CHR 0xA5]"

definition mark_other :: string where
  "mark_other = [CHR 0xE2, CHR 0x80, CHR 0x9A, CHR 0xC3, CHR 0xB6, CHR 0xC2, CHR 0xB4]"

definition status_mark :: "string \<Rightarrow> string" where
  "status_mark status =
     (if status = ''SAFE'' then mark_safe
      else if status = ''WARNING'' then mark_warning
      else if status = ''CRITICAL'' then mark_critical
      else mark_other)"

text \<open>
  One pass of the loop body gives the line handed to \<^verbatim>\<open>st.markdown\<close>. \<open>clock\<close> is
  the value of \<^verbatim>\<open>int(time.time())\<close> seen while that lab is analysed. A lab whose
  data is falsy never reaches \<^verbatim>\<open>analyze_data\<close>: the \<^verbatim>\<open>else\<close> branch prints
  OFFLINE.
\<close>

definition lab_line :: "(string \<Rightarrow> pyerr + pyval) \<Rightarrow> (string \<Rightarrow> int) \<Rightarrow> string \<Rightarrow> pyerr + string" where
  "lab_line fetch clock lab_id =
     (let lab_data = get_latest_data fetch lab_id in
      if py_truthy lab_data then
        bind_err (analyze_data (clock lab_id) lab_data) (\<lambda>(status, message, color).
        bind_err (lab_name lab_id) (\<lambda>name.
          Inr (status_mark status @ '' **'' @ name @ ''**: '' @ status)))
      else
        bind_err (lab_name lab_id) (\<lambda>name.
          Inr (mark_other @ '' **'' @ name @ ''**: OFFLINE'')))"

text \<open>The \<^verbatim>\<open>for\<close> loop: an exception in one pass ends the loop.\<close>

fun labs_loop :: "(string \<Rightarrow> pyerr + pyval) \<Rightarrow> (string \<Rightarrow> int) \<Rightarrow> string list \<Rightarrow> pyerr + string list" where
  "labs_loop fetch clock [] = Inr []"
| "labs_loop fetch clock (lab_id # rest) =
     bind_err (lab_line fetch clock lab_id) (\<lambda>line.
     bind_err (labs_loop fetch clock rest) (\<lambda>lines.
       Inr (line # lines)))"

definition all_labs_status :: "(string \<Rightarrow> pyerr + pyval) \<Rightarrow> (string \<Rightarrow> int) \<Rightarrow> pyerr + string list" where
  "all_labs_status fetch clock =
     labs_loop fetch clock [''sensor_node_01'', ''sensor_node_02'', ''sensor_node_03'']"

section \<open>Concrete readings\<close>

text \<open>The all-safe reading of the dashboard's normal case, without a timestamp.\<close>

definition reading_safe :: pyval where
  "reading_safe = PDict
     [(''temperature'', PNum (NInt 22)), (''humidity'', PNum (NInt 45)),
      (''gas_ppm'', PNum (NInt 100)), (''motion_detected'', PNum (NBool False))]"

text \<open>The same values with a Unix timestamp.\<close>

definition reading_stamped :: pyval where
  "reading_stamped = PDict
     [(''timestamp'', PNum (NInt 1700000000)),
      (''temperature'', PNum (NInt 22)), (''humidity'', PNum (NInt 45)),
      (''gas_ppm'', PNum (NInt 100)), (''motion_detected'', PNum (NBool False))]"


text \<open>Floats with more digits than one decimal place.\<close>

definition reading_fine :: pyval where
  "reading_fine = PDict
     [(''temperature'', PNum (NFloat 3526 2)), (''humidity'', PNum (NInt 45)),
      (''gas_ppm'', PNum (NFloat 85075 2))]"

text \<open>A temperature that is a string.\<close>

definition reading_hot :: pyval where
  "reading_hot = PDict
     [(''temperature'', PStr ''hot''), (''humidity'', PNum (NInt 45))]"


text \<open>
  A store in which the fetch for the second lab raises, the first lab holds the all-safe
  reading and every other path holds an empty dict.
\<close>

definition fetch_one_down :: "string \<Rightarrow> pyerr + pyval" where
  "fetch_one_down device_id =
     (if device_id = ''sensor_node_02'' then Inl FetchError
      else if device_id = ''sensor_node_01'' then Inr reading_safe
      else Inr (PDict []))"

text \<open>
  A store in which the fetch for the first lab raises, the second lab holds the reading
  with a string for its temperature and every other path holds the all-safe reading.
\<close>

definition fetch_down_and_hot :: "string \<Rightarrow> pyerr + pyval" where
  "fetch_down_and_hot device_id =
     (if device_id = ''sensor_node_01'' then Inl FetchError
      else if device_id = ''sensor_node_02'' then Inr reading_hot
      else Inr reading_safe)"

definition clock0 :: "string \<Rightarrow> int" where
  "clock0 lab_id = 0"

section \<open>Basic facts\<close>

lemma bind_err_Inl [simp]: "bind_err (Inl e) f = Inl e"
  by (simp add: bind_err_def)

lemma bind_err_Inr [simp]: "bind_err (Inr x) f = f x"
  by (simp add: bind_err_def)

lemma map_of_in_keys: "(key \<in> fst ` set kvs) = (map_of kvs key \<noteq> None)"
  by (simp add: map_of_eq_None_iff)

lemma online_returns: "\<exists>b. is_sensor_online now data tmo = Inr b"
  by (cases "online_try now data tmo") (auto simp: is_sensor_online_def)

lemma online_truthy: "is_sensor_online now data tmo = Inr True \<Longrightarrow> py_truthy data"
  by (auto simp: is_sensor_online_def split: if_splits)

lemma online_try_dict:
  "online_try now (PDict kvs) tmo =
     (case map_of kvs ''timestamp'' of
        Some (PNum ts) \<Rightarrow>
          if val ts > 1000000000 then
            (case tmo of PNum t \<Rightarrow> Inr (real_of_int now - val ts \<le> val t) | _ \<Rightarrow> Inl TypeError)
          else Inr True
      | Some _ \<Rightarrow> Inl TypeError
      | None \<Rightarrow> Inr (map_of kvs ''temperature'' \<noteq> None \<or> map_of kvs ''humidity'' \<noteq> None))"
  by (simp add: online_try_def map_of_in_keys split: option.split pyval.split)

lemma analyze_data_online:
  "is_sensor_online now data default_timeout = Inr True \<Longrightarrow> analyze_data now data = classify data"
  by (frule online_truthy) (simp add: analyze_data_def)

lemmas float_eval = str_float_def str_exponent_def strip_zeros_def digits.simps Let_def



lemma str_float_3001: "str_float 3001 2 = ''30.01''"
  by (simp add: float_eval)

lemma str_float_2601: "str_float 2601 2 = ''26.01''"
  by (simp add: float_eval)

lemma str_int_30: "str_int 30 = ''30''"
  by code_simp


lemma read_fields_dict:
  "read_fields (PDict kvs) = Inr
     (case map_of kvs ''temperature'' of None \<Rightarrow> PNum (NInt 0) | Some v \<Rightarrow> v,
      case map_of kvs ''humidity'' of None \<Rightarrow> PNum (NInt 0) | Some v \<Rightarrow> v,
      case map_of kvs ''gas_ppm'' of None \<Rightarrow> PNum (NInt 0) | Some v \<Rightarrow> v,
      case map_of kvs ''motion_detected'' of None \<Rightarrow> PNum (NBool False) | Some v \<Rightarrow> v)"
  by (simp add: read_fields_def)

lemma collect_issues_num:
  "collect_issues (PNum t) (PNum h) (PNum g) = Inr
     ((if val t > 30 \<or> val t < 10 then [''Critical Temperature: '' @ str_num t @ deg_C] else []) @
      (if val h > 70 \<or> val h < 20 then [''Critical Humidity: '' @ str_num h @ ''%''] else []) @
      (if val g > 800 then [''Dangerous Gas Level: '' @ str_num g @ '' ppm''] else []),
      (if val t > 30 \<or> val t < 10 then []
       else if val t > 26 \<or> val t < 18 then [''Temperature Warning: '' @ str_num t @ deg_C]
       else []) @
      (if val h > 70 \<or> val h < 20 then []
       else if val h > 60 \<or> val h < 30 then [''Humidity Warning: '' @ str_num h @ ''%'']
       else []) @
      (if val g > 800 then []
       else if val g > 500 then [''Elevated Gas Level: '' @ str_num g @ '' ppm'']
       else []))"
  by (simp add: collect_issues_def temp_check_def humidity_check_def gas_check_def)

lemma collect_issues_Inr_num:
  assumes "collect_issues tv hv gv = Inr st"
  shows "\<exists>t h g. tv = PNum t \<and> hv = PNum h \<and> gv = PNum g"
proof -
  obtain t where t: "tv = PNum t"
    using assms by (cases tv) (simp_all add: collect_issues_def temp_check_def)
  obtain st1 where st1: "temp_check tv ([], []) = Inr st1"
    using t by (cases "temp_check tv ([], [])") (auto simp: temp_check_def split: if_splits)
  obtain h where h: "hv = PNum h"
    using assms st1 by (cases hv) (simp_all add: collect_issues_def humidity_check_def)
  obtain st2 where st2: "humidity_check hv st1 = Inr st2"
    using h by (cases "humidity_check hv st1") (auto simp: humidity_check_def split: if_splits)
  obtain g where g: "gv = PNum g"
    using assms st1 st2 by (cases gv) (simp_all add: collect_issues_def gas_check_def)
  show ?thesis
    using t h g by blast
qed

lemma collect_issues_total: "\<exists>st. collect_issues (PNum t) (PNum h) (PNum g) = Inr st"
  by (simp add: collect_issues_num)

lemma classify_fields:
  "read_fields data = Inr (tv, hv, gv, m) \<Longrightarrow>
   classify data = bind_err (collect_issues tv hv gv) (\<lambda>st. Inr (overall_status st))"
  by (simp add: classify_def)

lemma analyze_data_num:
  assumes "is_sensor_online now data default_timeout = Inr True"
    and "read_fields data = Inr (PNum t, PNum h, PNum g, motion)"
  shows "analyze_data now data = Inr
     (if (val t > 30 \<or> val t < 10) \<or> (val h > 70 \<or> val h < 20) \<or> val g > 800 then
        (''CRITICAL'',
         join '' | ''
           ((if val t > 30 \<or> val t < 10 then [''Critical Temperature: '' @ str_num t @ deg_C] else []) @
            (if val h > 70 \<or> val h < 20 then [''Critical Humidity: '' @ str_num h @ ''%''] else []) @
            (if val g > 800 then [''Dangerous Gas Level: '' @ str_num g @ '' ppm''] else [])),
         ''red'')
      else if (val t > 26 \<or> val t < 18) \<or> (val h > 60 \<or> val h < 30) \<or> val g > 500 then
        (''WARNING'',
         join '' | ''
           ((if val t > 26 \<or> val t < 18 then [''Temperature Warning: '' @ str_num t @ deg_C] else []) @
            (if val h > 60 \<or> val h < 30 then [''Humidity Warning: '' @ str_num h @ ''%''] else []) @
            (if val g > 500 then [''Elevated Gas Level: '' @ str_num g @ '' ppm''] else [])),
         ''orange'')
      else (''SAFE'', ''All parameters within safe range'', ''green''))"
proof -
  have "analyze_data now data = classify data"
    using assms(1) by (rule analyze_data_online)
  also have "\<dots> = bind_err (collect_issues (PNum t) (PNum h) (PNum g)) (\<lambda>st. Inr (overall_status st))"
    using assms(2) by (rule classify_fields)
  finally show ?thesis
    by (auto simp: collect_issues_num overall_status_def)
qed


lemma str_float_3526: "str_float 3526 2 = ''35.26''"
  by (simp add: float_eval)

lemma str_float_85075: "str_float 85075 2 = ''850.75''"
  by (simp add: float_eval)

lemma str_float_small: "str_float 5 5 = ''5e-05''"
  by (simp add: float_eval)

lemma str_float_large: "str_float 10000000000000000 0 = ''1e+16''"
  by (simp add: float_eval)

lemma bind_err_assoc:
  "bind_err (bind_err m f) g = bind_err m (\<lambda>x. bind_err (f x) g)"
  by (cases m) simp_all

lemma online_try_clock:
  assumes "\<forall>kvs ts. data = PDict kvs \<and> map_of kvs ''timestamp'' = Some (PNum ts) \<longrightarrow>
             val ts \<le> 1000000000"
  shows "online_try now1 data tmo = online_try now2 data tmo"
proof (cases data)
  case (PDict kvs)
  then show ?thesis
    using assms by (auto simp: online_try_dict split: option.split pyval.split)
qed (simp_all add: online_try_def)


lemma lab_line_failed:
  "fetch i = Inl e \<Longrightarrow> lab_name i = Inr n \<Longrightarrow>
   lab_line fetch clock i = Inr (mark_other @ '' **'' @ n @ ''**: OFFLINE'')"
  by (simp add: lab_line_def get_latest_data_def)

lemma lab_line_ok:
  "fetch j = Inr r \<Longrightarrow> py_truthy r \<Longrightarrow> analyze_data (clock j) r = Inr (s, m, c) \<Longrightarrow>
   lab_name j = Inr n \<Longrightarrow>
   lab_line fetch clock j = Inr (status_mark s @ '' **'' @ n @ ''**: '' @ s)"
  by (simp add: lab_line_def get_latest_data_def)

lemma lab_line_empty:
  "fetch j = Inr r \<Longrightarrow> \<not> py_truthy r \<Longrightarrow> lab_name j = Inr n \<Longrightarrow>
   lab_line fetch clock j = Inr (mark_other @ '' **'' @ n @ ''**: OFFLINE'')"
  by (simp add: lab_line_def get_latest_data_def)

lemma mark_offline: "status_mark ''OFFLINE'' = mark_other"
  by (simp add: status_mark_def)

lemma analyze_reading_safe:
  "analyze_data 0 reading_safe = Inr (''SAFE'', ''All parameters within safe range'', ''green'')"
  by code_simp

section \<open>The status aggregator\<close>

text \<open>
  C1, as the code has it. \<^verbatim>\<open>analyze_data\<close> takes the reading only. A falsy reading
  gives UNKNOWN with the message \<^verbatim>\<open>No data available\<close>; otherwise, when
  \<^verbatim>\<open>is_sensor_online\<close> with its default timeout of 30 seconds is false, it gives
  OFFLINE with the message \<^verbatim>\<open>Sensor not responding - simulator may be stopped\<close>;
  otherwise it gives what the threshold checks give, unchanged.
\<close>

theorem analyze_data_cases:
  "analyze_data now data =
     (if \<not> py_truthy data then Inr (''UNKNOWN'', ''No data available'', ''gray'')
      else if is_sensor_online now data default_timeout = Inr False then
        Inr (''OFFLINE'', ''Sensor not responding - simulator may be stopped'', ''gray'')
      else classify data)"
  using online_returns [of now data default_timeout]
  by (auto simp: analyze_data_def)

theorem analyze_data_cases_witness:
  "analyze_data 1700000060 reading_stamped =
     Inr (''OFFLINE'', ''Sensor not responding - simulator may be stopped'', ''gray'')"
proof -
  have t: "py_truthy reading_stamped"
    by code_simp
  have off: "is_sensor_online 1700000060 reading_stamped default_timeout = Inr False"
    by code_simp
  show ?thesis
    using analyze_data_cases [of 1700000060 reading_stamped] t off by simp
qed

text \<open>
  C1 as stated fails for a timeout other than 30: twenty seconds after the reading,
  \<^verbatim>\<open>is_sensor_online\<close> with a timeout of 10 is false, and \<^verbatim>\<open>analyze_data\<close> still
  returns SAFE.
\<close>

theorem analyze_data_timeout_counterexample:
  "is_sensor_online 1700000020 reading_stamped (PNum (NInt 10)) = Inr False \<and>
   analyze_data 1700000020 reading_stamped =
     Inr (''SAFE'', ''All parameters within safe range'', ''green'')"
  by code_simp

section \<open>The staleness check\<close>



text \<open>
  C5: \<^verbatim>\<open>is_sensor_online\<close> returns a bool on every value, every clock and every
  timeout, and when the body of its \<^verbatim>\<open>try\<close> raises on a truthy reading the result
  is \<^verbatim>\<open>True\<close>.
\<close>

theorem is_sensor_online_never_raises:
  "(\<exists>b. is_sensor_online now data tmo = Inr b) \<and>
   (py_truthy data \<and> online_try now data tmo = Inl e \<longrightarrow>
      is_sensor_online now data tmo = Inr True)"
  using online_returns [of now data tmo] by (simp add: is_sensor_online_def)

text \<open>
  A reading that is the number 5 (\<^verbatim>\<open>'timestamp' in 5\<close> raises TypeError), and a
  timestamp that is a string.
\<close>

theorem is_sensor_online_never_raises_witness:
  "py_truthy (PNum (NInt 5)) \<and>
   online_try 0 (PNum (NInt 5)) default_timeout = Inl TypeError \<and>
   is_sensor_online 0 (PNum (NInt 5)) default_timeout = Inr True"
proof -
  have t: "py_truthy (PNum (NInt 5))"
    by simp
  have r: "online_try 0 (PNum (NInt 5)) default_timeout = Inl TypeError"
    by (simp add: online_try_def)
  show ?thesis
    using t r is_sensor_online_never_raises [of 0 "PNum (NInt 5)" default_timeout TypeError]
    by simp
qed

section \<open>The threshold checks\<close>



text \<open>
  C3: every threshold is exclusive. A temperature of exactly 30 adds no critical
  reason (it adds the warning, as 30 is above 26) and 30.01 adds the critical one;
  exactly 26 adds nothing and 26.01 adds the warning; the same holds at 10 and 18, at
  the humidity bounds 70, 20, 60 and 30 and at the gas bounds 800 and 500. Each block
  appends at most one reason, to one of the two lists, and a value that meets the
  critical condition gets the critical reason and no warning.
\<close>

theorem threshold_boundaries:
  "(val t = 30 \<longrightarrow> temp_check (PNum t) (ci, w) =
      Inr (ci, w @ [''Temperature Warning: '' @ str_num t @ deg_C])) \<and>
   (val t = 30.01 \<longrightarrow> temp_check (PNum t) (ci, w) =
      Inr (ci @ [''Critical Temperature: '' @ str_num t @ deg_C], w)) \<and>
   (val t = 26 \<longrightarrow> temp_check (PNum t) (ci, w) = Inr (ci, w)) \<and>
   (val t = 26.01 \<longrightarrow> temp_check (PNum t) (ci, w) =
      Inr (ci, w @ [''Temperature Warning: '' @ str_num t @ deg_C])) \<and>
   (val t = 10 \<longrightarrow> temp_check (PNum t) (ci, w) =
      Inr (ci, w @ [''Temperature Warning: '' @ str_num t @ deg_C])) \<and>
   (val t = 18 \<longrightarrow> temp_check (PNum t) (ci, w) = Inr (ci, w)) \<and>
   (val h = 70 \<or> val h = 20 \<longrightarrow> humidity_check (PNum h) (ci, w) =
      Inr (ci, w @ [''Humidity Warning: '' @ str_num h @ ''%''])) \<and>
   (val h = 60 \<or> val h = 30 \<longrightarrow> humidity_check (PNum h) (ci, w) = Inr (ci, w)) \<and>
   (val g = 800 \<longrightarrow> gas_check (PNum g) (ci, w) =
      Inr (ci, w @ [''Elevated Gas Level: '' @ str_num g @ '' ppm''])) \<and>
   (val g = 500 \<longrightarrow> gas_check (PNum g) (ci, w) = Inr (ci, w)) \<and>
   (val t > 30 \<or> val t < 10 \<longrightarrow> temp_check (PNum t) (ci, w) =
      Inr (ci @ [''Critical Temperature: '' @ str_num t @ deg_C], w)) \<and>
   (val h > 70 \<or> val h < 20 \<longrightarrow> humidity_check (PNum h) (ci, w) =
      Inr (ci @ [''Critical Humidity: '' @ str_num h @ ''%''], w)) \<and>
   (val g > 800 \<longrightarrow> gas_check (PNum g) (ci, w) =
      Inr (ci @ [''Dangerous Gas Level: '' @ str_num g @ '' ppm''], w)) \<and>
   (temp_check v (ci, w) = Inr (ci', w') \<or> humidity_check v (ci, w) = Inr (ci', w') \<or>
    gas_check v (ci, w) = Inr (ci', w') \<longrightarrow>
      (ci' = ci \<and> w' = w) \<or> (\<exists>x. ci' = ci @ [x] \<and> w' = w) \<or> (\<exists>y. ci' = ci \<and> w' = w @ [y]))"
proof -
  have one: "(ci' = ci \<and> w' = w) \<or> (\<exists>x. ci' = ci @ [x] \<and> w' = w) \<or> (\<exists>y. ci' = ci \<and> w' = w @ [y])"
    if "temp_check v (ci, w) = Inr (ci', w') \<or> humidity_check v (ci, w) = Inr (ci', w') \<or>
        gas_check v (ci, w) = Inr (ci', w')"
    using that
    by (cases v) (auto simp: temp_check_def humidity_check_def gas_check_def split: if_splits)
  have temp: "temp_check (PNum t) (ci, w) =
      (if val t > 30 \<or> val t < 10 then Inr (ci @ [''Critical Temperature: '' @ str_num t @ deg_C], w)
       else if val t > 26 \<or> val t < 18 then Inr (ci, w @ [''Temperature Warning: '' @ str_num t @ deg_C])
       else Inr (ci, w))"
    by (simp add: temp_check_def)
  have hum: "humidity_check (PNum h) (ci, w) =
      (if val h > 70 \<or> val h < 20 then Inr (ci @ [''Critical Humidity: '' @ str_num h @ ''%''], w)
       else if val h > 60 \<or> val h < 30 then Inr (ci, w @ [''Humidity Warning: '' @ str_num h @ ''%''])
       else Inr (ci, w))"
    by (simp add: humidity_check_def)
  have gas: "gas_check (PNum g) (ci, w) =
      (if val g > 800 then Inr (ci @ [''Dangerous Gas Level: '' @ str_num g @ '' ppm''], w)
       else if val g > 500 then Inr (ci, w @ [''Elevated Gas Level: '' @ str_num g @ '' ppm''])
       else Inr (ci, w))"
    by (simp add: gas_check_def)
  show ?thesis
    unfolding temp hum gas using one by auto
qed

theorem threshold_boundaries_witness:
  "val (NInt 30) = 30 \<and>
   temp_check (PNum (NInt 30)) ([], []) = Inr ([], [''Temperature Warning: 30'' @ deg_C]) \<and>
   val (NFloat 3001 2) = 30.01 \<and>
   temp_check (PNum (NFloat 3001 2)) ([], []) = Inr ([''Critical Temperature: 30.01'' @ deg_C], []) \<and>
   val (NFloat 2601 2) = 26.01 \<and>
   temp_check (PNum (NFloat 2601 2)) ([], []) = Inr ([], [''Temperature Warning: 26.01'' @ deg_C])"
  using threshold_boundaries [where t = "NInt 30" and ci = "[]" and w = "[]"
          and h = "NInt 45" and g = "NInt 100" and v = PNone and ci' = "[]" and w' = "[]"]
        threshold_boundaries [where t = "NFloat 3001 2" and ci = "[]" and w = "[]"
          and h = "NInt 45" and g = "NInt 100" and v = PNone and ci' = "[]" and w' = "[]"]
        threshold_boundaries [where t = "NFloat 2601 2" and ci = "[]" and w = "[]"
          and h = "NInt 45" and g = "NInt 100" and v = PNone and ci' = "[]" and w' = "[]"]
  by (simp add: str_int_30 str_float_3001 str_float_2601)

text \<open>
  C6, as the code has it. On a dict reading whose temperature, humidity and gas fields,
  where present, are numbers, the threshold checks return a status and do not raise.
  A missing temperature, humidity or gas field is read as 0 and a missing motion field
  as \<^verbatim>\<open>False\<close>, and the checks run on the values so read.
\<close>

theorem classify_missing_fields:
  "((\<forall>v. map_of kvs ''temperature'' = Some v \<longrightarrow> (\<exists>n. v = PNum n)) \<and>
    (\<forall>v. map_of kvs ''humidity'' = Some v \<longrightarrow> (\<exists>n. v = PNum n)) \<and>
    (\<forall>v. map_of kvs ''gas_ppm'' = Some v \<longrightarrow> (\<exists>n. v = PNum n)) \<longrightarrow>
      (\<exists>s. classify (PDict kvs) = Inr s)) \<and>
   (\<exists>temp humidity gas_ppm motion.
      read_fields (PDict kvs) = Inr (temp, humidity, gas_ppm, motion) \<and>
      classify (PDict kvs) =
        bind_err (collect_issues temp humidity gas_ppm) (\<lambda>st. Inr (overall_status st)) \<and>
      (map_of kvs ''temperature'' = None \<longrightarrow> temp = PNum (NInt 0)) \<and>
      (map_of kvs ''humidity'' = None \<longrightarrow> humidity = PNum (NInt 0)) \<and>
      (map_of kvs ''gas_ppm'' = None \<longrightarrow> gas_ppm = PNum (NInt 0)) \<and>
      (map_of kvs ''motion_detected'' = None \<longrightarrow> motion = PNum (NBool False)))"
proof (intro conjI impI)
  assume num: "(\<forall>v. map_of kvs ''temperature'' = Some v \<longrightarrow> (\<exists>n. v = PNum n)) \<and>
    (\<forall>v. map_of kvs ''humidity'' = Some v \<longrightarrow> (\<exists>n. v = PNum n)) \<and>
    (\<forall>v. map_of kvs ''gas_ppm'' = Some v \<longrightarrow> (\<exists>n. v = PNum n))"
  obtain t where t: "(case map_of kvs ''temperature'' of None \<Rightarrow> PNum (NInt 0) | Some v \<Rightarrow> v) = PNum t"
    using num by (cases "map_of kvs ''temperature''") auto
  obtain h where h: "(case map_of kvs ''humidity'' of None \<Rightarrow> PNum (NInt 0) | Some v \<Rightarrow> v) = PNum h"
    using num by (cases "map_of kvs ''humidity''") auto
  obtain g where g: "(case map_of kvs ''gas_ppm'' of None \<Rightarrow> PNum (NInt 0) | Some v \<Rightarrow> v) = PNum g"
    using num by (cases "map_of kvs ''gas_ppm''") auto
  have "classify (PDict kvs) =
      bind_err (collect_issues (PNum t) (PNum h) (PNum g)) (\<lambda>st. Inr (overall_status st))"
    using t h g by (simp add: classify_def read_fields_dict)
  moreover obtain st where "collect_issues (PNum t) (PNum h) (PNum g) = Inr st"
    using collect_issues_total by blast
  ultimately have "classify (PDict kvs) = Inr (overall_status st)"
    by simp
  then show "\<exists>s. classify (PDict kvs) = Inr s"
    by blast
next
  show "\<exists>temp humidity gas_ppm motion.
      read_fields (PDict kvs) = Inr (temp, humidity, gas_ppm, motion) \<and>
      classify (PDict kvs) =
        bind_err (collect_issues temp humidity gas_ppm) (\<lambda>st. Inr (overall_status st)) \<and>
      (map_of kvs ''temperature'' = None \<longrightarrow> temp = PNum (NInt 0)) \<and>
      (map_of kvs ''humidity'' = None \<longrightarrow> humidity = PNum (NInt 0)) \<and>
      (map_of kvs ''gas_ppm'' = None \<longrightarrow> gas_ppm = PNum (NInt 0)) \<and>
      (map_of kvs ''motion_detected'' = None \<longrightarrow> motion = PNum (NBool False))"
    by (simp add: read_fields_dict classify_def)
qed

text \<open>A reading with a humidity field only: the three other fields take their defaults.\<close>

theorem classify_missing_fields_witness:
  "(\<exists>s. classify (PDict [(''humidity'', PNum (NInt 45))]) = Inr s) \<and>
   read_fields (PDict [(''humidity'', PNum (NInt 45))]) =
     Inr (PNum (NInt 0), PNum (NInt 45), PNum (NInt 0), PNum (NBool False))"
proof -
  have "\<exists>s. classify (PDict [(''humidity'', PNum (NInt 45))]) = Inr s"
    using classify_missing_fields [of "[(''humidity'', PNum (NInt 45))]", THEN conjunct1]
    by simp
  moreover have "read_fields (PDict [(''humidity'', PNum (NInt 45))]) =
     Inr (PNum (NInt 0), PNum (NInt 45), PNum (NInt 0), PNum (NBool False))"
    by (simp add: read_fields_dict)
  ultimately show ?thesis
    by blast
qed

text \<open>
  C6 as stated fails on a wrong-typed field: with the temperature a string, the reading
  is online and \<^verbatim>\<open>temp > 30\<close> raises TypeError out of \<^verbatim>\<open>analyze_data\<close>.
\<close>

theorem classify_wrong_type_counterexample:
  "is_sensor_online 0 reading_hot default_timeout = Inr True \<and>
   analyze_data 0 reading_hot = Inl TypeError"
  by code_simp

text \<open>
  C7, as the code has it. Whenever the three blocks return, the three values are
  numbers and every reason is the metric's label, then the value as \<^verbatim>\<open>str\<close> prints
  it, with no rounding, then the unit. For a float that is its shortest round-trip
  decimal, in exponent notation below 0.0001 and from \<open>10 ^ 16\<close> up.
\<close>

theorem reason_strings:
  assumes "collect_issues tv hv gv = Inr (ci, w)"
  shows "\<exists>t h g. tv = PNum t \<and> hv = PNum h \<and> gv = PNum g \<and>
     set ci \<subseteq> {''Critical Temperature: '' @ str_num t @ deg_C,
               ''Critical Humidity: '' @ str_num h @ ''%'',
               ''Dangerous Gas Level: '' @ str_num g @ '' ppm''} \<and>
     set w \<subseteq> {''Temperature Warning: '' @ str_num t @ deg_C,
              ''Humidity Warning: '' @ str_num h @ ''%'',
              ''Elevated Gas Level: '' @ str_num g @ '' ppm''}"
proof -
  obtain t h g where n: "tv = PNum t" "hv = PNum h" "gv = PNum g"
    using collect_issues_Inr_num [OF assms] by blast
  have ci: "ci =
      (if val t > 30 \<or> val t < 10 then [''Critical Temperature: '' @ str_num t @ deg_C] else []) @
      (if val h > 70 \<or> val h < 20 then [''Critical Humidity: '' @ str_num h @ ''%''] else []) @
      (if val g > 800 then [''Dangerous Gas Level: '' @ str_num g @ '' ppm''] else [])"
    using assms unfolding n collect_issues_num by simp
  have w: "w =
      (if val t > 30 \<or> val t < 10 then []
       else if val t > 26 \<or> val t < 18 then [''Temperature Warning: '' @ str_num t @ deg_C]
       else []) @
      (if val h > 70 \<or> val h < 20 then []
       else if val h > 60 \<or> val h < 30 then [''Humidity Warning: '' @ str_num h @ ''%'']
       else []) @
      (if val g > 800 then []
       else if val g > 500 then [''Elevated Gas Level: '' @ str_num g @ '' ppm'']
       else [])"
    using assms unfolding n collect_issues_num by simp
  have "set ci \<subseteq> {''Critical Temperature: '' @ str_num t @ deg_C,
               ''Critical Humidity: '' @ str_num h @ ''%'',
               ''Dangerous Gas Level: '' @ str_num g @ '' ppm''}"
    unfolding ci by auto
  moreover have "set w \<subseteq> {''Temperature Warning: '' @ str_num t @ deg_C,
              ''Humidity Warning: '' @ str_num h @ ''%'',
              ''Elevated Gas Level: '' @ str_num g @ '' ppm''}"
    unfolding w by auto
  ultimately show ?thesis
    using n by blast
qed

text \<open>
  A temperature of 35.26, a humidity of 0.00005, which prints as \<^verbatim>\<open>5e-05\<close>, and a gas
  level of 850.75.
\<close>

theorem reason_strings_witness:
  "collect_issues (PNum (NFloat 3526 2)) (PNum (NFloat 5 5)) (PNum (NFloat 85075 2)) =
     Inr ([''Critical Temperature: 35.26'' @ deg_C, ''Critical Humidity: 5e-05%'',
           ''Dangerous Gas Level: 850.75 ppm''], []) \<and>
   (\<exists>t h g. PNum (NFloat 3526 2) = PNum t \<and> PNum (NFloat 5 5) = PNum h \<and>
      PNum (NFloat 85075 2) = PNum g \<and>
      set [''Critical Temperature: 35.26'' @ deg_C, ''Critical Humidity: 5e-05%'',
           ''Dangerous Gas Level: 850.75 ppm''] \<subseteq>
        {''Critical Temperature: '' @ str_num t @ deg_C,
         ''Critical Humidity: '' @ str_num h @ ''%'',
         ''Dangerous Gas Level: '' @ str_num g @ '' ppm''})"
proof -
  have c: "collect_issues (PNum (NFloat 3526 2)) (PNum (NFloat 5 5)) (PNum (NFloat 85075 2)) =
     Inr ([''Critical Temperature: 35.26'' @ deg_C, ''Critical Humidity: 5e-05%'',
           ''Dangerous Gas Level: 850.75 ppm''], [])"
    by (simp add: collect_issues_num str_float_3526 str_float_small str_float_85075)
  show ?thesis
    using c reason_strings [OF c] by simp
qed

text \<open>
  C7 as stated fails on the rounding: a temperature of 35.26 is printed as 35.26, not
  35.3, and a gas level of 850.75 as 850.75, not 851.
\<close>

theorem reason_rounding_counterexample:
  "analyze_data 0 reading_fine =
     Inr (''CRITICAL'',
          ''Critical Temperature: 35.26'' @ deg_C @ '' | Dangerous Gas Level: 850.75 ppm'',
          ''red'')"
proof -
  have h1: "is_sensor_online 0 reading_fine default_timeout = Inr True"
    by code_simp
  have h2: "read_fields reading_fine =
      Inr (PNum (NFloat 3526 2), PNum (NInt 45), PNum (NFloat 85075 2), PNum (NBool False))"
    by code_simp
  show ?thesis
    using analyze_data_num [OF h1 h2] by (simp add: str_float_3526 str_float_85075)
qed



section \<open>Dependence on the clock\<close>

text \<open>
  C8, as the code has it. \<^verbatim>\<open>analyze_data\<close> reads the clock, through
  \<^verbatim>\<open>is_sensor_online\<close>, and nothing else outside its argument: two calls on the same
  reading return the same status whenever the staleness check answers the same at both
  clock values, and always when the reading is not a dict with a numeric timestamp
  above 1000000000.
\<close>

theorem analyze_data_clock:
  "(is_sensor_online now1 data default_timeout = is_sensor_online now2 data default_timeout \<longrightarrow>
      analyze_data now1 data = analyze_data now2 data) \<and>
   ((\<forall>kvs ts. data = PDict kvs \<and> map_of kvs ''timestamp'' = Some (PNum ts) \<longrightarrow>
        val ts \<le> 1000000000) \<longrightarrow>
      analyze_data now1 data = analyze_data now2 data)"
proof (intro conjI impI)
  assume "is_sensor_online now1 data default_timeout = is_sensor_online now2 data default_timeout"
  then show "analyze_data now1 data = analyze_data now2 data"
    by (simp add: analyze_data_def)
next
  assume "\<forall>kvs ts. data = PDict kvs \<and> map_of kvs ''timestamp'' = Some (PNum ts) \<longrightarrow>
        val ts \<le> 1000000000"
  then have "online_try now1 data default_timeout = online_try now2 data default_timeout"
    by (rule online_try_clock)
  then have "is_sensor_online now1 data default_timeout = is_sensor_online now2 data default_timeout"
    by (simp add: is_sensor_online_def)
  then show "analyze_data now1 data = analyze_data now2 data"
    by (simp add: analyze_data_def)
qed

text \<open>
  Five and ten seconds after the timestamp the reading is online both times; the
  reading without a timestamp gives the same status at any two clock values.
\<close>

theorem analyze_data_clock_witness:
  "is_sensor_online 1700000005 reading_stamped default_timeout =
     is_sensor_online 1700000010 reading_stamped default_timeout \<and>
   analyze_data 1700000005 reading_stamped = analyze_data 1700000010 reading_stamped \<and>
   analyze_data 0 reading_safe = analyze_data 1700000000 reading_safe"
proof -
  have h1: "is_sensor_online 1700000005 reading_stamped default_timeout =
     is_sensor_online 1700000010 reading_stamped default_timeout"
    by code_simp
  have h2: "\<forall>kvs ts. reading_safe = PDict kvs \<and> map_of kvs ''timestamp'' = Some (PNum ts) \<longrightarrow>
      val ts \<le> 1000000000"
    by (simp add: reading_safe_def)
  show ?thesis
    using h1 h2 analyze_data_clock [of 1700000005 reading_stamped 1700000010]
      analyze_data_clock [of 0 reading_safe 1700000000]
    by blast
qed

text \<open>
  C8 as stated fails: the same reading, ten seconds and sixty seconds after its
  timestamp, gives SAFE and then OFFLINE.
\<close>

theorem analyze_data_clock_counterexample:
  "analyze_data 1700000010 reading_stamped =
     Inr (''SAFE'', ''All parameters within safe range'', ''green'') \<and>
   analyze_data 1700000060 reading_stamped =
     Inr (''OFFLINE'', ''Sensor not responding - simulator may be stopped'', ''gray'')"
  by code_simp

section \<open>The summary of all labs\<close>

text \<open>
  C9, as the code has it. When the fetch for one lab raises, \<^verbatim>\<open>get_latest_data\<close>
  returns \<^verbatim>\<open>None\<close> and the line of that lab reads OFFLINE. The failed fetch does not
  end the loop and changes no other line: provided the reading of every other lab is
  either falsy, which also reads OFFLINE, or one that \<^verbatim>\<open>analyze_data\<close> returns a
  status for, the summary has one line for each lab, and the line of every other lab
  shows the tier of its own reading. (\<^verbatim>\<open>analyze_data\<close> is called without a
  \<^verbatim>\<open>try\<close>; the theorem says nothing of a summary in which it raises.)
\<close>

theorem labs_loop_isolation:
  assumes "fetch i = Inl e"
    and "\<forall>j\<in>set ids. lab_name j = Inr (nm j)"
    and "\<forall>j\<in>set ids. j \<noteq> i \<longrightarrow>
           (\<exists>r. fetch j = Inr r \<and>
                (if py_truthy r then analyze_data (clock j) r = Inr (tier j, msg j, col j)
                 else tier j = ''OFFLINE''))"
  shows "labs_loop fetch clock ids = Inr
     (map (\<lambda>j. if j = i then mark_other @ '' **'' @ nm j @ ''**: OFFLINE''
                else status_mark (tier j) @ '' **'' @ nm j @ ''**: '' @ tier j) ids)"
  using assms(2,3)
proof (induction ids)
  case Nil
  show ?case by simp
next
  case (Cons j rest)
  have name: "lab_name j = Inr (nm j)"
    using Cons.prems(1) by simp
  have line: "lab_line fetch clock j = Inr
      (if j = i then mark_other @ '' **'' @ nm j @ ''**: OFFLINE''
       else status_mark (tier j) @ '' **'' @ nm j @ ''**: '' @ tier j)"
  proof (cases "j = i")
    case True
    then show ?thesis
      using lab_line_failed [of fetch i e "nm i" clock] assms(1) name by simp
  next
    case False
    then obtain r where r: "fetch j = Inr r"
        "if py_truthy r then analyze_data (clock j) r = Inr (tier j, msg j, col j)
         else tier j = ''OFFLINE''"
      using Cons.prems(2) by auto
    show ?thesis
    proof (cases "py_truthy r")
      case True
      then show ?thesis
        using r False name by (simp add: lab_line_ok)
    next
      case no_data: False
      then have "tier j = ''OFFLINE''"
        using r(2) by simp
      then show ?thesis
        using r(1) no_data False name by (simp add: lab_line_empty mark_offline)
    qed
  qed
  have rest: "labs_loop fetch clock rest = Inr
      (map (\<lambda>j. if j = i then mark_other @ '' **'' @ nm j @ ''**: OFFLINE''
                 else status_mark (tier j) @ '' **'' @ nm j @ ''**: '' @ tier j) rest)"
    using Cons.IH Cons.prems by simp
  show ?case
    by (simp only: labs_loop.simps line rest bind_err_Inr list.map)
qed

text \<open>
  The three labs of the dashboard: the fetch for the second one raises, the first one
  holds the all-safe reading and the third one an empty dict.
\<close>

theorem labs_loop_isolation_witness:
  "fetch_one_down ''sensor_node_02'' = Inl FetchError \<and>
   all_labs_status fetch_one_down clock0 = Inr
     [mark_safe @ '' **Lab A**: SAFE'',
      mark_other @ '' **Room B**: OFFLINE'',
      mark_other @ '' **Lab C**: OFFLINE'']"
proof -
  have f: "fetch_one_down ''sensor_node_02'' = Inl FetchError"
    by (simp add: fetch_one_down_def)
  have n: "\<forall>j\<in>set [''sensor_node_01'', ''sensor_node_02'', ''sensor_node_03''].
      lab_name j = Inr (if j = ''sensor_node_01'' then ''Lab A''
                        else if j = ''sensor_node_02'' then ''Room B'' else ''Lab C'')"
    by (simp add: lab_name_def)
  have t: "py_truthy reading_safe"
    by code_simp
  have o: "\<forall>j\<in>set [''sensor_node_01'', ''sensor_node_02'', ''sensor_node_03''].
      j \<noteq> ''sensor_node_02'' \<longrightarrow>
        (\<exists>r. fetch_one_down j = Inr r \<and>
             (if py_truthy r then
                analyze_data (clock0 j) r =
                  Inr (if j = ''sensor_node_01'' then ''SAFE'' else ''OFFLINE'',
                       ''All parameters within safe range'', ''green'')
              else (if j = ''sensor_node_01'' then ''SAFE'' else ''OFFLINE'') = ''OFFLINE''))"
    using t by (simp add: fetch_one_down_def clock0_def analyze_reading_safe)
  show ?thesis
    using f labs_loop_isolation [OF f n o]
    by (simp add: all_labs_status_def status_mark_def)
qed

text \<open>
  C9 as stated fails on the tier: the lab whose fetch raised is reported OFFLINE, not
  UNKNOWN. \<^verbatim>\<open>get_latest_data\<close> returns \<^verbatim>\<open>None\<close> for it, and the loop prints the
  OFFLINE line without calling \<^verbatim>\<open>analyze_data\<close>.
\<close>

theorem failed_fetch_offline_counterexample:
  "get_latest_data fetch_one_down ''sensor_node_02'' = PNone \<and>
   lab_line fetch_one_down clock0 ''sensor_node_02'' =
     Inr (mark_other @ '' **Room B**: OFFLINE'')"
  by (simp add: get_latest_data_def fetch_one_down_def lab_line_def lab_name_def)

text \<open>
  Outside the claim: an exception of \<^verbatim>\<open>analyze_data\<close> is not caught by the loop. With
  the first fetch raising and the second lab holding a string for its temperature, the
  TypeError ends the summary, and the third lab, whose reading is all-safe, gets no line.
\<close>

lemma labs_loop_uncaught: "all_labs_status fetch_down_and_hot clock0 = Inl TypeError"
proof -
  have "lab_line fetch_down_and_hot clock0 ''sensor_node_01'' =
      Inr (mark_other @ '' **Lab A**: OFFLINE'')"
    by (simp add: get_latest_data_def fetch_down_and_hot_def lab_line_def lab_name_def)
  moreover have "analyze_data 0 reading_hot = Inl TypeError"
    by code_simp
  then have "lab_line fetch_down_and_hot clock0 ''sensor_node_02'' = Inl TypeError"
    by (simp add: get_latest_data_def fetch_down_and_hot_def lab_line_def clock0_def
        reading_hot_def)
  ultimately show ?thesis
    by (simp add: all_labs_status_def)
qed

end
